theory Spec2Isabelle
  imports Main "HOL-Library.Word" "HOL-Library.Multiset"
begin

section \<open>JavaScript strings\<close>

text \<open>
  A JavaScript string is a sequence of UTF-16 code units; \<open>s.length\<close> counts code
  units and \<open>===\<close> on strings compares them one by one. String literals of the source
  are ASCII and are written as HOL strings, converted by \<open>js\<close>.
\<close>

type_synonym code_unit = "16 word"
type_synonym jsstring = "code_unit list"

definition js :: "string \<Rightarrow> jsstring" where
  "js s = map of_char s"

text \<open>
  \<open>String.prototype.trim\<close> removes leading and trailing WhiteSpace and LineTerminator
  code points (ECMA-262): TAB, LF, VT, FF, CR, SP, NBSP, U+1680, U+2000 to U+200A,
  U+2028, U+2029, U+202F, U+205F, U+3000 and U+FEFF. All of them are single code units.
\<close>

definition is_white_space :: "code_unit \<Rightarrow> bool" where
  "is_white_space c \<longleftrightarrow>
     c = 0x9 \<or> c = 0xA \<or> c = 0xB \<or> c = 0xC \<or> c = 0xD \<or> c = 0x20 \<or> c = 0xA0 \<or>
     c = 0x1680 \<or> (0x2000 \<le> c \<and> c \<le> 0x200A) \<or> c = 0x2028 \<or> c = 0x2029 \<or>
     c = 0x202F \<or> c = 0x205F \<or> c = 0x3000 \<or> c = 0xFEFF"

definition trim :: "jsstring \<Rightarrow> jsstring" where
  "trim s = rev (dropWhile is_white_space (rev (dropWhile is_white_space s)))"

text \<open>
  A request field that may be missing is an option. \<open>!x\<close> on such a field is true when
  the field is absent or is the empty string.
\<close>

definition falsy :: "jsstring option \<Rightarrow> bool" where
  "falsy x \<longleftrightarrow> (case x of None \<Rightarrow> True | Some s \<Rightarrow> s = [])"

text \<open>\<open>x || d\<close> for an optional string \<open>x\<close> and a default \<open>d\<close>.\<close>

definition or_default :: "jsstring option \<Rightarrow> jsstring \<Rightarrow> jsstring" where
  "or_default x d = (case x of None \<Rightarrow> d | Some s \<Rightarrow> if s = [] then d else s)"

text \<open>The decimal text of a non-negative integer, as a template literal prints it.\<close>

fun show_nat :: "nat \<Rightarrow> string" where
  "show_nat n =
     (if n < 10 then [char_of (48 + n)]
      else show_nat (n div 10) @ [char_of (48 + n mod 10)])"

declare show_nat.simps [simp del]

section \<open>Numbers: \<open>Math.floor(Math.random() * n)\<close>\<close>

text \<open>
  \<open>Math.random()\<close> returns a double \<open>r\<close> with \<open>0 \<le> r < 1\<close>. Every such double is
  \<open>mant / 2 ^ expo\<close> for a significand below \<open>2 ^ 53\<close> and an exponent of at most 1074
  (the subnormal grid), and every such pair is a double.
\<close>

record unit_double =
  mant :: nat
  expo :: nat

definition is_unit_double :: "unit_double \<Rightarrow> bool" where
  "is_unit_double r \<longleftrightarrow> mant r < 2 ^ 53 \<and> expo r \<le> 1074 \<and> mant r < 2 ^ expo r"

fun bit_length :: "nat \<Rightarrow> nat" where
  "bit_length n = (if n = 0 then 0 else Suc (bit_length (n div 2)))"

declare bit_length.simps [simp del]

text \<open>
  The product of two doubles is the exact product rounded to 53 significant bits, ties
  to even. \<open>round53 k\<close> rounds the integer \<open>k\<close> that way; for \<open>r = m / 2 ^ e\<close> and an
  integer \<open>n\<close> the double \<open>r * n\<close> is \<open>round53 (m * n) / 2 ^ e\<close> (the exact product is
  already on the subnormal grid, and nothing here overflows).
\<close>

definition round53 :: "nat \<Rightarrow> nat" where
  "round53 k =
     (let b = bit_length k in
      if b \<le> 53 then k
      else
        let s = b - 53; q = k div 2 ^ s; r = k mod 2 ^ s; h = 2 ^ (s - 1) in
        (if h < r \<or> (r = h \<and> odd q) then q + 1 else q) * 2 ^ s)"

definition floor_random_times :: "unit_double \<Rightarrow> nat \<Rightarrow> nat" where
  "floor_random_times r n = round53 (mant r * n) div 2 ^ expo r"

section \<open>Data model\<close>

text \<open>The documents of the two collections (\<open>ILink\<close>, \<open>IMessage\<close>). Dates are
  milliseconds since the epoch. The message's \<open>linkId\<close> field is \<open>msg_linkId\<close> here.\<close>

record link =
  linkId :: jsstring
  userKey :: jsstring
  title :: jsstring
  description :: jsstring
  isActive :: bool
  createdAt :: int

record message =
  messageId :: jsstring
  msg_linkId :: jsstring
  content :: jsstring
  anonymousSenderId :: jsstring
  timestamp :: int

text \<open>The document store: both collections in insertion order.\<close>

record db =
  links :: "link list"
  messages :: "message list"

text \<open>
  What a request draws from outside the handler: the result of \<open>uuidv4()\<close>, the clock
  read by the schema default \<open>Date.now\<close>, the three outcomes of \<open>Math.random()\<close> in
  call order, and the verdict of the rate-limiting middleware for this request.
\<close>

record env =
  uuidv4 :: jsstring
  date_now :: int
  random1 :: unit_double
  random2 :: unit_double
  random3 :: unit_double
  rate_limited :: bool

section \<open>Responses\<close>

datatype json =
  JBool bool
  | JNum int
  | JStr jsstring
  | JDate int
  | JArr "json list"
  | JObj "(string \<times> json) list"

datatype body = Json json | Text jsstring

record response =
  status :: nat
  payload :: body

definition json_response :: "nat \<Rightarrow> (string \<times> json) list \<Rightarrow> response" where
  "json_response st kvs = \<lparr>status = st, payload = Json (JObj kvs)\<rparr>"

definition error_response :: "nat \<Rightarrow> string \<Rightarrow> response" where
  "error_response st msg = json_response st [(''error'', JStr (js msg))]"

text \<open>Every object key of a JSON value, at any depth.\<close>

fun json_keys :: "json \<Rightarrow> string list" where
  "json_keys (JArr xs) = concat (map json_keys xs)"
| "json_keys (JObj kvs) = concat (map (\<lambda>kv. fst kv # json_keys (snd kv)) kvs)"
| "json_keys _ = []"

fun body_keys :: "body \<Rightarrow> string list" where
  "body_keys (Json j) = json_keys j"
| "body_keys (Text t) = []"

section \<open>The store\<close>

text \<open>
  \<open>findOne\<close> returns the first matching document, \<open>deleteOne\<close> removes it, and
  \<open>save\<close> on a document that was read from the store writes it back in its place.
\<close>

definition find_link :: "db \<Rightarrow> jsstring \<Rightarrow> link option" where
  "find_link d lid = find (\<lambda>l. linkId l = lid) (links d)"

definition find_message :: "db \<Rightarrow> jsstring \<Rightarrow> message option" where
  "find_message d mid = find (\<lambda>m. messageId m = mid) (messages d)"

fun replace_first :: "('a \<Rightarrow> bool) \<Rightarrow> 'a \<Rightarrow> 'a list \<Rightarrow> 'a list" where
  "replace_first P y [] = []"
| "replace_first P y (x # xs) = (if P x then y # xs else x # replace_first P y xs)"

fun delete_first :: "('a \<Rightarrow> bool) \<Rightarrow> 'a list \<Rightarrow> 'a list" where
  "delete_first P [] = []"
| "delete_first P (x # xs) = (if P x then xs else x # delete_first P xs)"

text \<open>
  The schemas: \<open>required: true\<close> on a string path rejects the empty string,
  \<open>maxLength: 1000\<close> bounds the content, and \<open>unique: true\<close> makes the store refuse a
  second document with the same identifier. A refused \<open>save\<close> throws; it is \<open>None\<close>.
\<close>

definition link_valid :: "link \<Rightarrow> bool" where
  "link_valid l \<longleftrightarrow> linkId l \<noteq> [] \<and> userKey l \<noteq> []"

definition message_valid :: "message \<Rightarrow> bool" where
  "message_valid m \<longleftrightarrow>
     messageId m \<noteq> [] \<and> msg_linkId m \<noteq> [] \<and> content m \<noteq> [] \<and>
     length (content m) \<le> 1000 \<and> anonymousSenderId m \<noteq> []"

definition save_new_link :: "db \<Rightarrow> link \<Rightarrow> db option" where
  "save_new_link d l =
     (if link_valid l \<and> linkId l \<notin> set (map linkId (links d))
      then Some (d\<lparr>links := links d @ [l]\<rparr>) else None)"

definition save_new_message :: "db \<Rightarrow> message \<Rightarrow> db option" where
  "save_new_message d m =
     (if message_valid m \<and> messageId m \<notin> set (map messageId (messages d))
      then Some (d\<lparr>messages := messages d @ [m]\<rparr>) else None)"

definition save_link :: "db \<Rightarrow> link \<Rightarrow> db" where
  "save_link d l = d\<lparr>links := replace_first (\<lambda>x. linkId x = linkId l) l (links d)\<rparr>"

definition delete_message_by_id :: "db \<Rightarrow> jsstring \<Rightarrow> db" where
  "delete_message_by_id d mid =
     d\<lparr>messages := delete_first (\<lambda>m. messageId m = mid) (messages d)\<rparr>"

text \<open>\<open>Message.find({ linkId }).sort({ timestamp: -1 })\<close> and
  \<open>Link.find({ userKey: key }).sort({ createdAt: -1 })\<close>: newest first. The store
  leaves the order of documents with equal dates open; here they keep insertion order.\<close>

definition messages_of :: "db \<Rightarrow> jsstring \<Rightarrow> message list" where
  "messages_of d lid =
     sort_key (\<lambda>m. - timestamp m) (filter (\<lambda>m. msg_linkId m = lid) (messages d))"

definition links_of :: "db \<Rightarrow> jsstring \<Rightarrow> link list" where
  "links_of d k =
     sort_key (\<lambda>l. - createdAt l) (filter (\<lambda>l. userKey l = k) (links d))"

definition count_messages :: "db \<Rightarrow> jsstring \<Rightarrow> nat" where
  "count_messages d lid = length (filter (\<lambda>m. msg_linkId m = lid) (messages d))"

section \<open>Helper functions\<close>

definition validateKey :: "jsstring \<Rightarrow> jsstring \<Rightarrow> bool" where
  "validateKey providedKey storedKey \<longleftrightarrow> providedKey = storedKey"

definition adjectives :: "string list" where
  "adjectives = [''Anonymous'', ''Secret'', ''Hidden'', ''Mystery'', ''Shadow'']"

definition animals :: "string list" where
  "animals = [''Fox'', ''Owl'', ''Cat'', ''Wolf'', ''Bear'', ''Eagle'', ''Raven'']"

text \<open>Indexing an array out of range gives \<open>undefined\<close>, which a template literal
  prints as the word.\<close>

definition element_text :: "string list \<Rightarrow> nat \<Rightarrow> string" where
  "element_text xs i = (if i < length xs then xs ! i else ''undefined'')"

text \<open>The three arguments are the outcomes of the three calls of \<open>Math.random()\<close>, in
  the order the function makes them.\<close>

definition generateAnonymousSenderId ::
    "unit_double \<Rightarrow> unit_double \<Rightarrow> unit_double \<Rightarrow> jsstring" where
  "generateAnonymousSenderId r1 r2 r3 =
     (let numbers = floor_random_times r1 999 + 1;
          adjective = element_text adjectives (floor_random_times r2 (length adjectives));
          animal = element_text animals (floor_random_times r3 (length animals))
      in js (adjective @ animal @ show_nat numbers))"

section \<open>Response bodies\<close>

definition share_url :: "jsstring \<Rightarrow> jsstring" where
  "share_url lid = js ''/share/'' @ lid"

definition link_info_json :: "link \<Rightarrow> json" where
  "link_info_json l = JObj
     [(''linkId'', JStr (linkId l)), (''title'', JStr (title l)),
      (''description'', JStr (description l)), (''isActive'', JBool (isActive l)),
      (''createdAt'', JDate (createdAt l))]"

text \<open>A message document as \<open>select("-_id -__v")\<close> leaves it.\<close>

definition message_json :: "message \<Rightarrow> json" where
  "message_json m = JObj
     [(''messageId'', JStr (messageId m)), (''linkId'', JStr (msg_linkId m)),
      (''content'', JStr (content m)), (''anonymousSenderId'', JStr (anonymousSenderId m)),
      (''timestamp'', JDate (timestamp m))]"

definition link_summary_json :: "db \<Rightarrow> link \<Rightarrow> json" where
  "link_summary_json d l = JObj
     [(''linkId'', JStr (linkId l)), (''title'', JStr (title l)),
      (''description'', JStr (description l)), (''isActive'', JBool (isActive l)),
      (''createdAt'', JDate (createdAt l)),
      (''messageCount'', JNum (int (count_messages d (linkId l)))),
      (''shareUrl'', JStr (share_url (linkId l)))]"

definition internal_error :: response where
  "internal_error = error_response 500 ''Internal server error''"

section \<open>Handlers\<close>

text \<open>Each handler takes the store and returns the store after the request and the
  response. An exception inside the handler's \<open>try\<close> gives the 500 response.\<close>

definition create_link ::
    "env \<Rightarrow> db \<Rightarrow> jsstring option \<Rightarrow> jsstring option \<Rightarrow> jsstring option \<Rightarrow> db \<times> response" where
  "create_link e d key ttl descr =
     (if falsy key \<or> length (the key) < 6 then
        (d, error_response 400 ''Key is required and must be at least 6 characters long'')
      else
        let lid = take 8 (uuidv4 e);
            newLink = \<lparr>linkId = lid, userKey = the key,
                       title = or_default ttl (js ''Anonymous Messages''),
                       description = or_default descr (js ''Send me anonymous messages''),
                       isActive = True, createdAt = date_now e\<rparr>
        in case save_new_link d newLink of
             None \<Rightarrow> (d, internal_error)
           | Some d' \<Rightarrow>
               (d', json_response 201
                  [(''success'', JBool True), (''linkId'', JStr lid),
                   (''shareUrl'', JStr (share_url lid)), (''title'', JStr (title newLink)),
                   (''description'', JStr (description newLink)),
                   (''createdAt'', JDate (createdAt newLink))]))"

definition send_message :: "env \<Rightarrow> db \<Rightarrow> jsstring \<Rightarrow> jsstring option \<Rightarrow> db \<times> response" where
  "send_message e d lid cont =
     (if falsy cont \<or> length (trim (the cont)) = 0 then
        (d, error_response 400 ''Message content is required'')
      else if length (the cont) > 1000 then
        (d, error_response 400 ''Message too long (max 1000 characters)'')
      else case find_link d lid of
        None \<Rightarrow> (d, error_response 404 ''Link not found'')
      | Some l \<Rightarrow>
          if \<not> isActive l then
            (d, error_response 403 ''This link is no longer accepting messages'')
          else
            let mid = uuidv4 e;
                sender = generateAnonymousSenderId (random1 e) (random2 e) (random3 e);
                newMessage = \<lparr>messageId = mid, msg_linkId = lid, content = trim (the cont),
                              anonymousSenderId = sender, timestamp = date_now e\<rparr>
            in (case save_new_message d newMessage of
                  None \<Rightarrow> (d, internal_error)
                | Some d' \<Rightarrow>
                    (d', json_response 201
                       [(''success'', JBool True), (''messageId'', JStr mid),
                        (''anonymousSenderId'', JStr sender),
                        (''timestamp'', JDate (timestamp newMessage)),
                        (''message'', JStr (js ''Message sent successfully!''))])))"

definition get_messages :: "db \<Rightarrow> jsstring \<Rightarrow> jsstring option \<Rightarrow> response" where
  "get_messages d lid key =
     (if falsy key then error_response 401 ''Key is required''
      else case find_link d lid of
        None \<Rightarrow> error_response 404 ''Link not found''
      | Some l \<Rightarrow>
          if \<not> validateKey (the key) (userKey l) then error_response 401 ''Invalid key''
          else
            let msgs = messages_of d lid in
            json_response 200
              [(''success'', JBool True), (''linkInfo'', link_info_json l),
               (''messages'', JArr (map message_json msgs)),
               (''totalMessages'', JNum (int (length msgs)))])"

definition list_links :: "db \<Rightarrow> jsstring option \<Rightarrow> response" where
  "list_links d key =
     (if falsy key then error_response 401 ''Key is required''
      else
        let ls = links_of d (the key);
            linksWithCounts = map (link_summary_json d) ls
        in json_response 200
             [(''success'', JBool True), (''links'', JArr linksWithCounts),
              (''totalLinks'', JNum (int (length linksWithCounts)))])"

definition delete_message :: "db \<Rightarrow> jsstring \<Rightarrow> jsstring option \<Rightarrow> db \<times> response" where
  "delete_message d mid key =
     (if falsy key then (d, error_response 401 ''Key is required'')
      else case find_message d mid of
        None \<Rightarrow> (d, error_response 404 ''Message not found'')
      | Some m \<Rightarrow>
          (case find_link d (msg_linkId m) of
             None \<Rightarrow> (d, error_response 404 ''Associated link not found'')
           | Some l \<Rightarrow>
               if \<not> validateKey (the key) (userKey l) then
                 (d, error_response 401 ''Invalid key'')
               else
                 (delete_message_by_id d mid,
                  json_response 200
                    [(''success'', JBool True),
                     (''message'', JStr (js ''Message deleted successfully''))])))"

definition toggle_visibility :: "db \<Rightarrow> jsstring \<Rightarrow> jsstring option \<Rightarrow> db \<times> response" where
  "toggle_visibility d lid key =
     (if falsy key then (d, error_response 401 ''Key is required'')
      else case find_link d lid of
        None \<Rightarrow> (d, error_response 404 ''Link not found'')
      | Some l \<Rightarrow>
          if \<not> validateKey (the key) (userKey l) then
            (d, error_response 401 ''Invalid key'')
          else
            let l' = l\<lparr>isActive := \<not> isActive l\<rparr> in
            (save_link d l',
             json_response 200
               [(''success'', JBool True), (''linkId'', JStr (linkId l')),
                (''isActive'', JBool (isActive l')),
                (''message'', JStr (js (''Link '' @
                   (if isActive l' then ''activated'' else ''deactivated'') @
                   '' successfully'')))]))"

definition link_info :: "db \<Rightarrow> jsstring \<Rightarrow> response" where
  "link_info d lid =
     (case find_link d lid of
        None \<Rightarrow> error_response 404 ''Link not found''
      | Some l \<Rightarrow>
          json_response 200 [(''success'', JBool True), (''linkInfo'', link_info_json l)])"

definition root :: response where
  "root = \<lparr>status = 200, payload = Text (js
     ''Welcome to the Anonymous Messages API! Use /api/links/create to create a link.'')\<rparr>"

section \<open>Routes\<close>

text \<open>The routes of the application, with the fields each handler reads from the
  request. The two POST routes that create documents pass through a rate limiter
  first, which answers by itself (status 429) when it refuses the request.\<close>

datatype request =
  CreateLink "jsstring option" "jsstring option" "jsstring option"
  | SendMessage jsstring "jsstring option"
  | GetMessages jsstring "jsstring option"
  | ListLinks "jsstring option"
  | DeleteMessage jsstring "jsstring option"
  | ToggleVisibility jsstring "jsstring option"
  | LinkInfo jsstring
  | Root

fun route :: "env \<Rightarrow> db \<Rightarrow> request \<Rightarrow> db \<times> response" where
  "route e d (CreateLink key ttl descr) =
     (if rate_limited e then (d, error_response 429 ''Too many links created, try again later.'')
      else create_link e d key ttl descr)"
| "route e d (SendMessage lid cont) =
     (if rate_limited e then (d, error_response 429 ''Too many messages sent, try again later.'')
      else send_message e d lid cont)"
| "route e d (GetMessages lid key) = (d, get_messages d lid key)"
| "route e d (ListLinks key) = (d, list_links d key)"
| "route e d (DeleteMessage mid key) = delete_message d mid key"
| "route e d (ToggleVisibility lid key) = toggle_visibility d lid key"
| "route e d (LinkInfo lid) = (d, link_info d lid)"
| "route e d Root = (d, root)"

section \<open>Stores the service can reach\<close>

text \<open>
  What the schemas guarantee of every stored document: the \<open>required\<close> paths are
  there, the content is within its bound, and the identifiers are unique.
\<close>

definition wf_db :: "db \<Rightarrow> bool" where
  "wf_db d \<longleftrightarrow>
     list_all link_valid (links d) \<and> distinct (map linkId (links d)) \<and>
     list_all message_valid (messages d) \<and> distinct (map messageId (messages d))"

definition empty_db :: db where
  "empty_db = \<lparr>links = [], messages = []\<rparr>"

inductive reachable :: "db \<Rightarrow> bool" where
  start: "reachable empty_db"
| step: "reachable d \<Longrightarrow> reachable (fst (route e d req))"

section \<open>Secrecy of the key\<close>




section \<open>A small store for concrete runs\<close>

text \<open>One link with two messages, the double \<open>0.5\<close>, and an environment whose next
  identifier begins like the identifier of the stored link.\<close>

definition half :: unit_double where
  "half = \<lparr>mant = 1, expo = 1\<rparr>"

definition demo_link :: link where
  "demo_link = \<lparr>linkId = js ''a1b2c3d4'', userKey = js ''secret123'',
     title = js ''Anonymous Messages'', description = js ''Send me anonymous messages'',
     isActive = True, createdAt = 1000\<rparr>"

definition demo_old :: message where
  "demo_old = \<lparr>messageId = js ''m-1'', msg_linkId = js ''a1b2c3d4'', content = js ''hello'',
     anonymousSenderId = js ''SecretOwl7'', timestamp = 2000\<rparr>"

definition demo_new :: message where
  "demo_new = \<lparr>messageId = js ''m-2'', msg_linkId = js ''a1b2c3d4'', content = js ''bye'',
     anonymousSenderId = js ''ShadowFox31'', timestamp = 3000\<rparr>"

definition demo_db :: db where
  "demo_db = \<lparr>links = [demo_link], messages = [demo_old, demo_new]\<rparr>"

definition demo_env :: env where
  "demo_env = \<lparr>uuidv4 = js ''a1b2c3d4-0000-4000-8000-000000000000'', date_now = 5000,
     random1 = half, random2 = half, random3 = half, rate_limited = False\<rparr>"

section \<open>Facts about strings\<close>

lemma js_append: "js (a @ b) = js a @ js b"
  by (simp add: js_def)

lemma length_trim_le: "length (trim s) \<le> length s"
proof -
  have "length (trim s) \<le> length (dropWhile is_white_space s)"
    unfolding trim_def
    using length_dropWhile_le [of is_white_space "rev (dropWhile is_white_space s)"]
    by simp
  also have "\<dots> \<le> length s" by (rule length_dropWhile_le)
  finally show ?thesis .
qed

lemma trim_empty_iff: "trim s = [] \<longleftrightarrow> (\<forall>c\<in>set s. is_white_space c)"
proof
  assume "trim s = []"
  then have "dropWhile is_white_space (rev (dropWhile is_white_space s)) = []"
    by (simp add: trim_def)
  then have "\<forall>c\<in>set (dropWhile is_white_space s). is_white_space c"
    by (simp add: dropWhile_eq_Nil_conv)
  then have "dropWhile is_white_space s = []"
    by (metis hd_dropWhile list.set_sel(1))
  then show "\<forall>c\<in>set s. is_white_space c"
    by (simp add: dropWhile_eq_Nil_conv)
next
  assume "\<forall>c\<in>set s. is_white_space c"
  then show "trim s = []" by (auto simp: trim_def dest: set_dropWhileD)
qed

lemma trim_padded:
  assumes "\<not> is_white_space a" and "is_white_space b" and "0 < n"
  shows "trim (replicate n a @ replicate k b) = replicate n a"
proof -
  have "dropWhile is_white_space (replicate n a @ replicate k b) = replicate n a @ replicate k b"
    using assms by (cases n) simp_all
  moreover have "dropWhile is_white_space (replicate k b @ replicate n a) = replicate n a"
    using assms by (simp add: dropWhile_append dropWhile_replicate)
  ultimately show ?thesis by (simp add: trim_def)
qed

lemma white_space_examples: "\<not> is_white_space 0x61" "is_white_space 0x20"
  by (simp_all add: is_white_space_def)

lemma show_nat_nonempty: "show_nat n \<noteq> []"
  by (subst show_nat.simps) simp

lemma show_nat_examples:
  "show_nat 1 = ''1''" "show_nat 42 = ''42''" "show_nat 500 = ''500''" "show_nat 999 = ''999''"
  by code_simp+

section \<open>Facts about \<open>Math.floor(Math.random() * n)\<close>\<close>

lemma bit_length_lower: "0 < n \<Longrightarrow> 2 ^ (bit_length n - 1) \<le> n"
proof (induction n rule: bit_length.induct)
  case (1 n)
  show ?case
  proof (cases "n div 2 = 0")
    case True
    with 1 show ?thesis by (simp add: bit_length.simps [of n] bit_length.simps [of 0])
  next
    case False
    with 1 have "2 ^ (bit_length (n div 2) - 1) \<le> n div 2" by simp
    moreover have "0 < bit_length (n div 2)"
      using False by (simp add: bit_length.simps [of "n div 2"])
    ultimately have "2 ^ bit_length (n div 2) \<le> 2 * (n div 2)"
      by (cases "bit_length (n div 2)") simp_all
    with 1 show ?thesis by (simp add: bit_length.simps [of n])
  qed
qed

text \<open>Rounding moves a number by at most half a unit in the last place, up or down.\<close>

lemma round53_le: "round53 k \<le> k + 2 ^ (bit_length k - 54)"
proof (cases "bit_length k \<le> 53")
  case True
  then show ?thesis by (simp add: round53_def)
next
  case False
  define s where "s = bit_length k - 53"
  define q where "q = k div 2 ^ s"
  define r where "r = k mod 2 ^ s"
  have s: "0 < s" using False by (simp add: s_def)
  have k: "k = q * 2 ^ s + r"
    unfolding q_def r_def by (rule div_mult_mod_eq [symmetric])
  have h: "bit_length k - 54 = s - 1" by (simp add: s_def)
  have two: "(2::nat) ^ s = 2 * 2 ^ (s - 1)" using s by (cases s) simp_all
  have r53: "round53 k =
      (if 2 ^ (s - 1) < r \<or> (r = 2 ^ (s - 1) \<and> odd q) then q + 1 else q) * 2 ^ s"
    using False by (simp add: round53_def Let_def s_def q_def r_def)
  show ?thesis
  proof (cases "2 ^ (s - 1) < r \<or> (r = 2 ^ (s - 1) \<and> odd q)")
    case True
    then have "2 ^ (s - 1) \<le> r" by auto
    then have "(q + 1) * 2 ^ s \<le> q * 2 ^ s + r + 2 ^ (s - 1)"
      using two by (simp add: algebra_simps)
    moreover from True have "round53 k = (q + 1) * 2 ^ s" by (simp only: r53 if_True)
    ultimately show ?thesis unfolding h using k by simp
  next
    case False
    then have "round53 k = q * 2 ^ s" by (simp only: r53 if_False)
    then show ?thesis using k by simp
  qed
qed

lemma round53_ge: "k \<le> round53 k + 2 ^ (bit_length k - 54)"
proof (cases "bit_length k \<le> 53")
  case True
  then show ?thesis by (simp add: round53_def)
next
  case False
  define s where "s = bit_length k - 53"
  define q where "q = k div 2 ^ s"
  define r where "r = k mod 2 ^ s"
  have k: "k = q * 2 ^ s + r"
    unfolding q_def r_def by (rule div_mult_mod_eq [symmetric])
  have h: "bit_length k - 54 = s - 1" by (simp add: s_def)
  have r: "r < 2 ^ s" by (simp add: r_def)
  have r53: "round53 k =
      (if 2 ^ (s - 1) < r \<or> (r = 2 ^ (s - 1) \<and> odd q) then q + 1 else q) * 2 ^ s"
    using False by (simp add: round53_def Let_def s_def q_def r_def)
  show ?thesis
  proof (cases "2 ^ (s - 1) < r \<or> (r = 2 ^ (s - 1) \<and> odd q)")
    case True
    then have "round53 k = (q + 1) * 2 ^ s" by (simp only: r53 if_True)
    then show ?thesis using k r by simp
  next
    case False
    then have "round53 k = q * 2 ^ s" by (simp only: r53 if_False)
    moreover from False have "r \<le> 2 ^ (s - 1)" by auto
    ultimately show ?thesis unfolding h using k by simp
  qed
qed

text \<open>A product that fits in 53 bits is exact.\<close>

lemma round53_exact: "k < 2 ^ 53 \<Longrightarrow> round53 k = k"
proof -
  assume k: "k < 2 ^ 53"
  have "bit_length k \<le> 53"
  proof (rule ccontr)
    assume "\<not> bit_length k \<le> 53"
    then have b: "54 \<le> bit_length k" by simp
    then have "0 < k" by (cases "k = 0") (simp_all add: bit_length.simps)
    then have "2 ^ (bit_length k - 1) \<le> k" by (rule bit_length_lower)
    moreover have "(2::nat) ^ 53 \<le> 2 ^ (bit_length k - 1)"
      using b by (intro power_increasing) simp_all
    ultimately show False using k by simp
  qed
  then show ?thesis by (simp add: round53_def)
qed

text \<open>The index drawn for a list of \<open>n\<close> entries is below \<open>n\<close>, also after rounding.\<close>

lemma floor_random_times_less:
  assumes "is_unit_double r" and "0 < n"
  shows "floor_random_times r n < n"
proof -
  define m where "m = mant r"
  define e where "e = expo r"
  define k where "k = m * n"
  from assms have m53: "m < 2 ^ 53" and me: "m < 2 ^ e"
    by (simp_all add: is_unit_double_def m_def e_def)
  from me have "Suc m \<le> 2 ^ e" by simp
  then have "Suc m * n \<le> 2 ^ e * n" by (rule mult_le_mono1)
  then have kn: "k + n \<le> n * 2 ^ e" by (simp add: k_def algebra_simps)
  have "round53 k < n * 2 ^ e"
  proof (cases "bit_length k \<le> 53")
    case True
    then have "round53 k = k" by (simp add: round53_def)
    with kn assms(2) show ?thesis by simp
  next
    case False
    then have kpos: "0 < k" by (cases "k = 0") (simp_all add: bit_length.simps)
    define s where "s = bit_length k - 54"
    have b: "bit_length k - Suc 0 = s + 53" using False by (simp add: s_def)
    have "2 ^ (s + 53) \<le> k" using bit_length_lower [OF kpos] by (simp add: b)
    also have "k < 2 ^ 53 * n" unfolding k_def using m53 assms(2) by simp
    finally have "(2::nat) ^ s * 2 ^ 53 < n * 2 ^ 53" by (simp add: power_add mult.commute)
    then have "2 ^ s < n" by simp
    moreover have "round53 k \<le> k + 2 ^ s" using round53_le [of k] by (simp add: s_def)
    ultimately show ?thesis using kn by linarith
  qed
  then have "round53 k div 2 ^ e < n"
    by (simp add: less_mult_imp_div_less)
  then show ?thesis by (simp add: floor_random_times_def k_def m_def e_def)
qed

lemma element_text_in_set: "i < length xs \<Longrightarrow> element_text xs i \<in> set xs"
  by (simp add: element_text_def)

lemma generateAnonymousSenderId_nonempty: "generateAnonymousSenderId r1 r2 r3 \<noteq> []"
  by (simp add: generateAnonymousSenderId_def Let_def js_def show_nat_nonempty)

lemma half_is_unit_double: "is_unit_double half"
  by (simp add: is_unit_double_def half_def)

text \<open>With \<open>0.5\<close> drawn three times: \<open>floor (499.5) + 1\<close>, the third adjective, the fourth animal.\<close>

lemma sender_example: "generateAnonymousSenderId half half half = js ''HiddenWolf500''"
  unfolding half_def by code_simp

section \<open>Facts about the store\<close>

lemma find_holds: "find P xs = Some m \<Longrightarrow> P m"
  by (induction xs) (auto split: if_splits)

lemma find_link_Some: "find_link d lid = Some l \<Longrightarrow> l \<in> set (links d) \<and> linkId l = lid"
  by (auto simp: find_link_def find_Some_iff)

lemma find_link_valid: "wf_db d \<Longrightarrow> find_link d lid = Some l \<Longrightarrow> link_valid l"
  by (auto simp: wf_db_def list_all_iff dest: find_link_Some)

lemma find_message_Some:
  "find_message d mid = Some m \<Longrightarrow> m \<in> set (messages d) \<and> messageId m = mid"
  by (auto simp: find_message_def find_Some_iff)

lemma find_replace_first:
  "find P xs = Some l \<Longrightarrow> P y \<Longrightarrow> find P (replace_first P y xs) = Some y"
  by (induction xs) (auto split: if_splits)

lemma replace_first_back:
  "find P xs = Some l \<Longrightarrow> P y \<Longrightarrow> replace_first P l (replace_first P y xs) = xs"
  by (induction xs) (auto split: if_splits)

lemma find_link_save_link:
  assumes "find_link d lid = Some l" and "linkId l' = lid"
  shows "find_link (save_link d l') lid = Some l'"
  using assms find_replace_first [of "\<lambda>x. linkId x = lid" "links d" l l']
  by (simp add: find_link_def save_link_def)

lemma save_link_back:
  assumes "find_link d lid = Some l" and "linkId l' = lid"
  shows "save_link (save_link d l') l = d"
  using assms find_link_Some [OF assms(1)]
    replace_first_back [of "\<lambda>x. linkId x = lid" "links d" l l']
  by (simp add: find_link_def save_link_def)

lemma delete_first_remove1: "find P xs = Some m \<Longrightarrow> delete_first P xs = remove1 m xs"
  by (induction xs) (auto split: if_splits dest: find_holds)

lemma delete_first_gone:
  "distinct (map g xs) \<Longrightarrow> x \<in> set (delete_first (\<lambda>y. g y = a) xs) \<Longrightarrow> g x \<noteq> a"
proof (induction xs)
  case Nil
  then show ?case by simp
next
  case (Cons y ys)
  show ?case
  proof (cases "g y = a")
    case True
    with Cons.prems have "x \<in> set ys" and "g y \<notin> g ` set ys" by simp_all
    with True show ?thesis by blast
  next
    case False
    with Cons show ?thesis by auto
  qed
qed

lemma sorted_desc_sort_key:
  "sorted_wrt (\<lambda>a b. f b \<le> f a) (sort_key (\<lambda>x. - f x) xs)" for f :: "'a \<Rightarrow> int"
proof -
  have "sorted (map (\<lambda>x. - f x) (sort_key (\<lambda>x. - f x) xs))" by (rule sorted_sort_key)
  then show ?thesis by (simp add: sorted_map)
qed

lemma mset_messages_of:
  "mset (messages_of d lid) = filter_mset (\<lambda>m. msg_linkId m = lid) (mset (messages d))"
  by (simp add: messages_of_def)

lemma sorted_messages_of:
  "sorted_wrt (\<lambda>a b. timestamp b \<le> timestamp a) (messages_of d lid)"
  unfolding messages_of_def by (rule sorted_desc_sort_key)

lemma length_messages_of:
  "length (messages_of d lid) = length (filter (\<lambda>m. msg_linkId m = lid) (messages d))"
  by (simp add: messages_of_def)

lemma mset_links_of:
  "mset (links_of d k) = filter_mset (\<lambda>l. userKey l = k) (mset (links d))"
  by (simp add: links_of_def)

lemma sorted_links_of:
  "sorted_wrt (\<lambda>a b. createdAt b \<le> createdAt a) (links_of d k)"
  unfolding links_of_def by (rule sorted_desc_sort_key)

lemma json_keys_link_summary:
  "json_keys (link_summary_json d l) =
     [''linkId'', ''title'', ''description'', ''isActive'', ''createdAt'', ''messageCount'',
      ''shareUrl'']"
  by (simp add: link_summary_json_def)



lemma list_links_keys: "''userKey'' \<notin> set (body_keys (payload (list_links d key)))"
  by (auto simp: list_links_def error_response_def json_response_def Let_def
      json_keys_link_summary)

lemma wf_demo_db: "wf_db demo_db"
  by (simp add: wf_db_def demo_db_def demo_link_def demo_old_def demo_new_def link_valid_def
      message_valid_def js_def)

lemma find_demo_link: "find_link demo_db (js ''a1b2c3d4'') = Some demo_link"
  by (simp add: find_link_def demo_db_def demo_link_def)

lemma toggle_visibility_owner:
  assumes "find_link d lid = Some l" and "userKey l \<noteq> []"
  shows "toggle_visibility d lid (Some (userKey l)) =
    (save_link d (l\<lparr>isActive := \<not> isActive l\<rparr>),
     json_response 200
       [(''success'', JBool True), (''linkId'', JStr lid), (''isActive'', JBool (\<not> isActive l)),
        (''message'', JStr (js (''Link '' @
           (if \<not> isActive l then ''activated'' else ''deactivated'') @ '' successfully'')))])"
  using assms find_link_Some [OF assms(1)]
  by (simp add: toggle_visibility_def falsy_def validateKey_def Let_def)

section \<open>The schema constraints hold in every reachable store\<close>

lemma wf_empty_db: "wf_db empty_db"
  by (simp add: wf_db_def empty_db_def)

lemma wf_save_new_link: "wf_db d \<Longrightarrow> save_new_link d l = Some d' \<Longrightarrow> wf_db d'"
  by (auto simp: save_new_link_def wf_db_def split: if_splits)

lemma wf_save_new_message: "wf_db d \<Longrightarrow> save_new_message d m = Some d' \<Longrightarrow> wf_db d'"
  by (auto simp: save_new_message_def wf_db_def split: if_splits)

lemma set_delete_first: "set (delete_first P xs) \<subseteq> set xs"
  by (induction xs) auto

lemma distinct_delete_first:
  "distinct (map g xs) \<Longrightarrow> distinct (map g (delete_first P xs))"
  using set_delete_first [of P]
  by (induction xs) (auto simp: image_iff)

lemma wf_delete_message_by_id: "wf_db d \<Longrightarrow> wf_db (delete_message_by_id d mid)"
  using set_delete_first [of "\<lambda>m. messageId m = mid" "messages d"]
  by (auto simp: wf_db_def delete_message_by_id_def list_all_iff distinct_delete_first)

lemma map_replace_first:
  "(\<And>x. P x \<Longrightarrow> g x = g y) \<Longrightarrow> map g (replace_first P y xs) = map g xs"
  by (induction xs) auto

lemma set_replace_first: "set (replace_first P y xs) \<subseteq> insert y (set xs)"
  by (induction xs) auto

lemma wf_save_link:
  assumes "wf_db d" and "link_valid l"
  shows "wf_db (save_link d l)"
proof -
  have "map linkId (replace_first (\<lambda>x. linkId x = linkId l) l (links d)) = map linkId (links d)"
    by (rule map_replace_first) simp
  moreover have "list_all link_valid (replace_first (\<lambda>x. linkId x = linkId l) l (links d))"
    using assms set_replace_first [of "\<lambda>x. linkId x = linkId l" l "links d"]
    by (auto simp: wf_db_def list_all_iff)
  ultimately show ?thesis using assms(1) by (simp add: wf_db_def save_link_def)
qed

lemma wf_create_link: "wf_db d \<Longrightarrow> wf_db (fst (create_link e d key ttl descr))"
  by (auto simp: create_link_def Let_def split: option.split dest: wf_save_new_link)

lemma wf_send_message: "wf_db d \<Longrightarrow> wf_db (fst (send_message e d lid cont))"
  by (auto simp: send_message_def Let_def split: option.split dest: wf_save_new_message)

lemma wf_delete_message: "wf_db d \<Longrightarrow> wf_db (fst (delete_message d mid key))"
  by (simp add: delete_message_def wf_delete_message_by_id split: option.split)

lemma wf_toggle_visibility: "wf_db d \<Longrightarrow> wf_db (fst (toggle_visibility d lid key))"
proof -
  assume wf: "wf_db d"
  have "wf_db (save_link d (l\<lparr>isActive := \<not> isActive l\<rparr>))" if "find_link d lid = Some l" for l
    using wf find_link_valid [OF wf that] by (intro wf_save_link) (simp_all add: link_valid_def)
  with wf show ?thesis
    by (simp add: toggle_visibility_def Let_def split: option.split)
qed

lemma wf_route: "wf_db d \<Longrightarrow> wf_db (fst (route e d req))"
  by (cases req)
    (simp_all add: wf_create_link wf_send_message wf_delete_message wf_toggle_visibility)

lemma reachable_wf: "reachable d \<Longrightarrow> wf_db d"
  by (induction rule: reachable.induct) (simp_all add: wf_empty_db wf_route)

section \<open>The keys of the response bodies\<close>










section \<open>Responses do not depend on the stored keys\<close>



















section \<open>Secrecy of the key (C1)\<close>



section \<open>Message sending (C2, C3)\<close>

text \<open>
  C2, as the code has it. Sending answers with a validation error (status 400) exactly
  when the content is empty after trimming or longer than 1000 characters before
  trimming: absent or all-whitespace content is "required", content that is too long
  is "too long". So content of exactly 1000 characters that is not blank is accepted,
  content of 1001 characters is rejected, and blank content is rejected. The bound is
  on the length as sent, not on the trimmed length.
\<close>

theorem send_message_content_check:
  "send_message e d lid None = (d, error_response 400 ''Message content is required'') \<and>
   (status (snd (send_message e d lid (Some c))) = 400
      \<longleftrightarrow> \<not> (1 \<le> length (trim c) \<and> length c \<le> 1000)) \<and>
   (length c = 1000 \<and> trim c \<noteq> [] \<longrightarrow> status (snd (send_message e d lid (Some c))) \<noteq> 400) \<and>
   (length c = 1001 \<longrightarrow> status (snd (send_message e d lid (Some c))) = 400) \<and>
   (list_all is_white_space c \<longrightarrow>
      send_message e d lid (Some c) = (d, error_response 400 ''Message content is required'')) \<and>
   (trim c \<noteq> [] \<and> 1000 < length c \<longrightarrow>
      send_message e d lid (Some c) =
        (d, error_response 400 ''Message too long (max 1000 characters)''))"
proof -
  have none: "send_message e d lid None = (d, error_response 400 ''Message content is required'')"
    by (simp add: send_message_def falsy_def)
  have empty: "send_message e d lid (Some c) = (d, error_response 400 ''Message content is required'')"
    if "trim c = []"
    using that by (simp add: send_message_def)
  have long: "send_message e d lid (Some c) =
        (d, error_response 400 ''Message too long (max 1000 characters)'')"
    if "trim c \<noteq> []" "1000 < length c"
    using that by (auto simp: send_message_def falsy_def trim_def)
  have ok: "status (snd (send_message e d lid (Some c))) \<noteq> 400"
    if "trim c \<noteq> []" "length c \<le> 1000"
  proof -
    have "\<not> falsy (Some c)" using that by (auto simp: falsy_def trim_def)
    with that show ?thesis
      by (simp add: send_message_def Let_def error_response_def json_response_def
          internal_error_def split: option.split)
  qed
  have iff: "status (snd (send_message e d lid (Some c))) = 400
      \<longleftrightarrow> \<not> (1 \<le> length (trim c) \<and> length c \<le> 1000)"
  proof (cases "trim c = []")
    case True
    then show ?thesis using empty by (simp add: error_response_def json_response_def)
  next
    case False
    show ?thesis
    proof (cases "1000 < length c")
      case True
      with False show ?thesis using long by (simp add: error_response_def json_response_def)
    next
      case F: False
      with False ok show ?thesis by (cases "trim c") simp_all
    qed
  qed
  have blank: "send_message e d lid (Some c) = (d, error_response 400 ''Message content is required'')"
    if "list_all is_white_space c"
    using that empty by (simp add: trim_empty_iff list_all_iff)
  from none empty long iff ok blank show ?thesis by auto
qed

theorem send_message_content_check_witness:
  "length (replicate 1000 (0x61 :: code_unit)) = 1000 \<and> trim (replicate 1000 0x61) \<noteq> [] \<and>
   status (snd (send_message demo_env demo_db (js ''a1b2c3d4'') (Some (replicate 1000 0x61))))
     \<noteq> 400 \<and>
   length (replicate 1001 (0x61 :: code_unit)) = 1001 \<and>
   status (snd (send_message demo_env demo_db (js ''a1b2c3d4'') (Some (replicate 1001 0x61))))
     = 400 \<and>
   list_all is_white_space (js ''   '') \<and>
   send_message demo_env demo_db (js ''a1b2c3d4'') (Some (js ''   '')) =
     (demo_db, error_response 400 ''Message content is required'') \<and>
   trim (replicate 1000 0x61 @ [0x20]) \<noteq> [] \<and> 1000 < length (replicate 1000 (0x61 :: code_unit) @ [0x20]) \<and>
   send_message demo_env demo_db (js ''a1b2c3d4'') (Some (replicate 1000 0x61 @ [0x20])) =
     (demo_db, error_response 400 ''Message too long (max 1000 characters)'')"
proof -
  have t: "trim (replicate 1000 0x61) = replicate 1000 0x61"
    using trim_padded [of "0x61" "0x20" 1000 0] by (simp add: white_space_examples)
  have t1: "trim (replicate 1000 0x61 @ [0x20]) = replicate 1000 0x61"
    using trim_padded [of "0x61" "0x20" 1000 1] by (simp add: white_space_examples)
  have blank: "list_all is_white_space (js ''   '')"
    by (simp add: js_def white_space_examples)
  show ?thesis
    using blank
      send_message_content_check [of demo_env demo_db "js ''a1b2c3d4''" "replicate 1000 0x61"]
      send_message_content_check [of demo_env demo_db "js ''a1b2c3d4''" "replicate 1001 0x61"]
      send_message_content_check [of demo_env demo_db "js ''a1b2c3d4''" "js ''   ''"]
      send_message_content_check [of demo_env demo_db "js ''a1b2c3d4''" "replicate 1000 0x61 @ [0x20]"]
    by (simp add: t t1)
qed

text \<open>
  C2 as stated puts the bound on the trimmed length. A thousand letters followed by one
  space are 1000 characters after trimming, and the request is rejected as too long.
\<close>

theorem send_message_trimmed_length_counterexample:
  "1 \<le> length (trim (replicate 1000 0x61 @ [0x20])) \<and>
   length (trim (replicate 1000 0x61 @ [0x20])) \<le> 1000 \<and>
   send_message demo_env demo_db (js ''a1b2c3d4'') (Some (replicate 1000 0x61 @ [0x20])) =
     (demo_db, error_response 400 ''Message too long (max 1000 characters)'')"
proof -
  have t: "trim (replicate 1000 0x61 @ [0x20]) = replicate 1000 0x61"
    using trim_padded [of "0x61" "0x20" 1000 1] by (simp add: white_space_examples)
  show ?thesis
    by (simp add: t send_message_def falsy_def)
qed

text \<open>
  C3. For content that passes the check: without a link of the given identifier the
  answer is 404 and the store is unchanged; with an inactive link the answer is 403
  and the store is unchanged; with an active link, in a store that satisfies the schema
  constraints and with a fresh identifier from \<open>uuidv4()\<close> (not empty, not the
  identifier of a stored message), the store gains exactly one message, with that
  identifier, the trimmed content, the generated sender name and the current time, and
  the 201 response returns the identifier, the sender name and the timestamp.
\<close>

theorem send_message_outcomes:
  assumes "trim c \<noteq> []" and "length c \<le> 1000"
  shows "(find_link d lid = None \<longrightarrow>
            send_message e d lid (Some c) = (d, error_response 404 ''Link not found'')) \<and>
         (find_link d lid = Some l \<and> \<not> isActive l \<longrightarrow>
            send_message e d lid (Some c) =
              (d, error_response 403 ''This link is no longer accepting messages'')) \<and>
         (find_link d lid = Some l \<and> isActive l \<and> wf_db d \<and>
          uuidv4 e \<noteq> [] \<and> uuidv4 e \<notin> set (map messageId (messages d)) \<longrightarrow>
            send_message e d lid (Some c) =
              (d\<lparr>messages := messages d @
                 [\<lparr>messageId = uuidv4 e, msg_linkId = lid, content = trim c,
                   anonymousSenderId =
                     generateAnonymousSenderId (random1 e) (random2 e) (random3 e),
                   timestamp = date_now e\<rparr>]\<rparr>,
               json_response 201
                 [(''success'', JBool True), (''messageId'', JStr (uuidv4 e)),
                  (''anonymousSenderId'',
                     JStr (generateAnonymousSenderId (random1 e) (random2 e) (random3 e))),
                  (''timestamp'', JDate (date_now e)),
                  (''message'', JStr (js ''Message sent successfully!''))]))"
proof -
  have c: "\<not> falsy (Some c)" "length (trim c) \<noteq> 0" "\<not> 1000 < length c"
    using assms by (auto simp: falsy_def trim_def)
  have short: "length (trim c) \<le> 1000"
    using length_trim_le [of c] assms(2) by simp
  have lid: "lid \<noteq> []" if "find_link d lid = Some l" and "wf_db d"
    using find_link_valid [OF that(2,1)] find_link_Some [OF that(1)] by (simp add: link_valid_def)
  show ?thesis
    using c short assms(1) lid
    by (auto simp: send_message_def Let_def save_new_message_def message_valid_def
        generateAnonymousSenderId_nonempty)
qed

theorem send_message_outcomes_witness:
  "trim (js '' hi '') \<noteq> [] \<and> length (js '' hi '') \<le> 1000 \<and>
   find_link demo_db (js ''zzzz'') = None \<and>
   send_message demo_env demo_db (js ''zzzz'') (Some (js '' hi '')) =
     (demo_db, error_response 404 ''Link not found'') \<and>
   find_link (demo_db\<lparr>links := [demo_link\<lparr>isActive := False\<rparr>]\<rparr>) (js ''a1b2c3d4'')
     = Some (demo_link\<lparr>isActive := False\<rparr>) \<and>
   send_message demo_env (demo_db\<lparr>links := [demo_link\<lparr>isActive := False\<rparr>]\<rparr>)
       (js ''a1b2c3d4'') (Some (js '' hi '')) =
     (demo_db\<lparr>links := [demo_link\<lparr>isActive := False\<rparr>]\<rparr>,
      error_response 403 ''This link is no longer accepting messages'') \<and>
   find_link demo_db (js ''a1b2c3d4'') = Some demo_link \<and> isActive demo_link \<and> wf_db demo_db \<and>
   uuidv4 demo_env \<noteq> [] \<and> uuidv4 demo_env \<notin> set (map messageId (messages demo_db)) \<and>
   send_message demo_env demo_db (js ''a1b2c3d4'') (Some (js '' hi '')) =
     (demo_db\<lparr>messages := [demo_old, demo_new,
        \<lparr>messageId = js ''a1b2c3d4-0000-4000-8000-000000000000'',
         msg_linkId = js ''a1b2c3d4'', content = js ''hi'',
         anonymousSenderId = js ''HiddenWolf500'', timestamp = 5000\<rparr>]\<rparr>,
      json_response 201
        [(''success'', JBool True),
         (''messageId'', JStr (js ''a1b2c3d4-0000-4000-8000-000000000000'')),
         (''anonymousSenderId'', JStr (js ''HiddenWolf500'')),
         (''timestamp'', JDate 5000),
         (''message'', JStr (js ''Message sent successfully!''))])"
proof -
  let ?off = "demo_db\<lparr>links := [demo_link\<lparr>isActive := False\<rparr>]\<rparr>"
  have t: "trim (js '' hi '') = js ''hi''"
    by (simp add: trim_def js_def is_white_space_def)
  have c: "trim (js '' hi '') \<noteq> []" "length (js '' hi '') \<le> 1000"
    by (simp_all add: t) (simp_all add: js_def)
  have missing: "find_link demo_db (js ''zzzz'') = None"
    by (simp add: find_link_def demo_db_def demo_link_def js_def)
  have off: "find_link ?off (js ''a1b2c3d4'') = Some (demo_link\<lparr>isActive := False\<rparr>)"
    by (simp add: find_link_def demo_link_def)
  have on: "isActive demo_link" by (simp add: demo_link_def)
  have fresh: "uuidv4 demo_env \<noteq> []" "uuidv4 demo_env \<notin> set (map messageId (messages demo_db))"
    by (simp_all add: demo_env_def demo_db_def demo_old_def demo_new_def js_def)
  have sender: "generateAnonymousSenderId (random1 demo_env) (random2 demo_env) (random3 demo_env)
      = js ''HiddenWolf500''"
    unfolding demo_env_def half_def by code_simp
  have env: "uuidv4 demo_env = js ''a1b2c3d4-0000-4000-8000-000000000000''" "date_now demo_env = 5000"
    by (simp_all add: demo_env_def)
  have msgs: "messages demo_db = [demo_old, demo_new]" by (simp add: demo_db_def)
  show ?thesis
    using c missing off on fresh wf_demo_db find_demo_link
      send_message_outcomes [OF c, where d = demo_db and lid = "js ''zzzz''" and e = demo_env]
      send_message_outcomes [OF c, where d = ?off and lid = "js ''a1b2c3d4''" and e = demo_env
        and l = "demo_link\<lparr>isActive := False\<rparr>"]
      send_message_outcomes [OF c, where d = demo_db and lid = "js ''a1b2c3d4''" and e = demo_env
        and l = demo_link]
    by (simp add: t sender env msgs)
qed

section \<open>Visibility toggle (C4)\<close>

text \<open>
  C4. For every stored link: after one toggle with the link's key the link is found
  with \<open>isActive\<close> flipped, after a second toggle with the key the store is the
  original one again, and a toggle with anything but the link's key (a different key or
  none) leaves the store unchanged and answers 401.
\<close>

theorem toggle_visibility_twice:
  assumes "wf_db d" and "find_link d lid = Some l"
  shows "find_link (fst (toggle_visibility d lid (Some (userKey l)))) lid
           = Some (l\<lparr>isActive := \<not> isActive l\<rparr>) \<and>
         fst (toggle_visibility (fst (toggle_visibility d lid (Some (userKey l)))) lid
                (Some (userKey l))) = d \<and>
         (key \<noteq> Some (userKey l) \<longrightarrow>
            fst (toggle_visibility d lid key) = d \<and>
            status (snd (toggle_visibility d lid key)) = 401)"
proof -
  let ?l' = "l\<lparr>isActive := \<not> isActive l\<rparr>"
  from assms have key: "userKey l \<noteq> []"
    using find_link_valid by (auto simp: link_valid_def)
  have lid: "linkId l = lid" using assms(2) by (simp add: find_link_Some)
  have first: "fst (toggle_visibility d lid (Some (userKey l))) = save_link d ?l'"
    using toggle_visibility_owner [OF assms(2) key] by simp
  have found: "find_link (save_link d ?l') lid = Some ?l'"
    using assms(2) lid by (simp add: find_link_save_link)
  have "toggle_visibility (save_link d ?l') lid (Some (userKey ?l')) =
      (save_link (save_link d ?l') (?l'\<lparr>isActive := \<not> isActive ?l'\<rparr>),
       json_response 200
       [(''success'', JBool True), (''linkId'', JStr lid), (''isActive'', JBool (\<not> isActive ?l')),
        (''message'', JStr (js (''Link '' @
           (if \<not> isActive ?l' then ''activated'' else ''deactivated'') @ '' successfully'')))])"
    using key by (intro toggle_visibility_owner [OF found]) simp
  then have second: "fst (toggle_visibility (save_link d ?l') lid (Some (userKey l))) = d"
    using save_link_back [OF assms(2), of ?l'] lid by simp
  have wrong: "key \<noteq> Some (userKey l) \<longrightarrow>
      fst (toggle_visibility d lid key) = d \<and> status (snd (toggle_visibility d lid key)) = 401"
    using assms(2)
    by (cases key)
      (auto simp: toggle_visibility_def falsy_def validateKey_def error_response_def
        json_response_def)
  from first found second wrong show ?thesis by simp
qed

theorem toggle_visibility_twice_witness:
  "wf_db demo_db \<and> find_link demo_db (js ''a1b2c3d4'') = Some demo_link \<and>
   find_link (fst (toggle_visibility demo_db (js ''a1b2c3d4'') (Some (userKey demo_link))))
     (js ''a1b2c3d4'') = Some (demo_link\<lparr>isActive := \<not> isActive demo_link\<rparr>) \<and>
   fst (toggle_visibility
          (fst (toggle_visibility demo_db (js ''a1b2c3d4'') (Some (userKey demo_link))))
          (js ''a1b2c3d4'') (Some (userKey demo_link))) = demo_db \<and>
   Some (js ''guess'') \<noteq> Some (userKey demo_link) \<and>
   fst (toggle_visibility demo_db (js ''a1b2c3d4'') (Some (js ''guess''))) = demo_db \<and>
   status (snd (toggle_visibility demo_db (js ''a1b2c3d4'') (Some (js ''guess'')))) = 401"
proof -
  have wrong: "Some (js ''guess'') \<noteq> Some (userKey demo_link)"
    by (simp add: demo_link_def js_def)
  show ?thesis
    using wf_demo_db find_demo_link wrong
      toggle_visibility_twice [OF wf_demo_db find_demo_link, of "Some (js ''guess'')"]
    by simp
qed

section \<open>Message retrieval (C5)\<close>

text \<open>
  C5. With the key of an existing link, retrieval answers 200 with the link's metadata
  (identifier, title, description, active flag, creation date and nothing else), the
  array of the messages of \<open>messages_of\<close>, each with its identifier, link
  identifier, content, sender name and timestamp, and their number. The messages of
  \<open>messages_of\<close> are exactly the stored messages whose \<open>linkId\<close> is the link's
  identifier, each as often as it is stored, and they are ordered by timestamp,
  newest first.
\<close>

theorem get_messages_owner:
  assumes "wf_db d" and "find_link d lid = Some l"
  shows "get_messages d lid (Some (userKey l)) =
           json_response 200
             [(''success'', JBool True),
              (''linkInfo'', JObj
                 [(''linkId'', JStr (linkId l)), (''title'', JStr (title l)),
                  (''description'', JStr (description l)), (''isActive'', JBool (isActive l)),
                  (''createdAt'', JDate (createdAt l))]),
              (''messages'', JArr
                 (map (\<lambda>m. JObj
                    [(''messageId'', JStr (messageId m)), (''linkId'', JStr (msg_linkId m)),
                     (''content'', JStr (content m)),
                     (''anonymousSenderId'', JStr (anonymousSenderId m)),
                     (''timestamp'', JDate (timestamp m))])
                  (messages_of d lid))),
              (''totalMessages'',
                 JNum (int (length (filter (\<lambda>m. msg_linkId m = linkId l) (messages d)))))] \<and>
         mset (messages_of d lid) =
           filter_mset (\<lambda>m. msg_linkId m = linkId l) (mset (messages d)) \<and>
         sorted_wrt (\<lambda>a b. timestamp b \<le> timestamp a) (messages_of d lid)"
proof -
  from assms have key: "userKey l \<noteq> []"
    using find_link_valid by (auto simp: link_valid_def)
  have lid: "linkId l = lid" using assms(2) by (simp add: find_link_Some)
  have render: "message_json = (\<lambda>m. JObj
        [(''messageId'', JStr (messageId m)), (''linkId'', JStr (msg_linkId m)),
         (''content'', JStr (content m)),
         (''anonymousSenderId'', JStr (anonymousSenderId m)),
         (''timestamp'', JDate (timestamp m))])"
    by (rule ext) (simp add: message_json_def)
  have "get_messages d lid (Some (userKey l)) =
      json_response 200
        [(''success'', JBool True), (''linkInfo'', link_info_json l),
         (''messages'', JArr (map message_json (messages_of d lid))),
         (''totalMessages'', JNum (int (length (messages_of d lid))))]"
    using assms(2) key by (simp add: get_messages_def falsy_def validateKey_def Let_def)
  then show ?thesis
    unfolding render
    by (simp add: link_info_json_def length_messages_of lid mset_messages_of sorted_messages_of)
qed

theorem get_messages_owner_witness:
  "wf_db demo_db \<and> find_link demo_db (js ''a1b2c3d4'') = Some demo_link \<and>
   get_messages demo_db (js ''a1b2c3d4'') (Some (js ''secret123'')) =
     json_response 200
       [(''success'', JBool True),
        (''linkInfo'', JObj
           [(''linkId'', JStr (js ''a1b2c3d4'')), (''title'', JStr (js ''Anonymous Messages'')),
            (''description'', JStr (js ''Send me anonymous messages'')),
            (''isActive'', JBool True), (''createdAt'', JDate 1000)]),
        (''messages'', JArr
           [JObj [(''messageId'', JStr (js ''m-2'')), (''linkId'', JStr (js ''a1b2c3d4'')),
                  (''content'', JStr (js ''bye'')),
                  (''anonymousSenderId'', JStr (js ''ShadowFox31'')),
                  (''timestamp'', JDate 3000)],
            JObj [(''messageId'', JStr (js ''m-1'')), (''linkId'', JStr (js ''a1b2c3d4'')),
                  (''content'', JStr (js ''hello'')),
                  (''anonymousSenderId'', JStr (js ''SecretOwl7'')),
                  (''timestamp'', JDate 2000)]]),
        (''totalMessages'', JNum 2)]"
proof -
  have ms: "messages_of demo_db (js ''a1b2c3d4'') = [demo_new, demo_old]"
    by (simp add: messages_of_def demo_db_def demo_old_def demo_new_def)
  have n: "length (filter (\<lambda>m. msg_linkId m = linkId demo_link) (messages demo_db)) = 2"
    by (simp add: demo_db_def demo_old_def demo_new_def demo_link_def)
  have key: "userKey demo_link = js ''secret123''" by (simp add: demo_link_def)
  show ?thesis
    using wf_demo_db find_demo_link
      conjunct1 [OF get_messages_owner [OF wf_demo_db find_demo_link]]
    by (simp add: ms n key) (simp add: demo_link_def demo_old_def demo_new_def)
qed

section \<open>Message deletion (C6)\<close>

text \<open>
  C6, as the code has it. For a deletion request that carries a key: without a message
  of the given identifier the answer is 404 "Message not found"; with a message whose
  link is gone it is 404 "Associated link not found"; with a key that differs from the
  key of the message's link it is 401 and the store is unchanged; with the link's key the
  answer is 200, the links are untouched and exactly that message is removed, so that
  (identifiers being unique) no message of that identifier is left and the messages
  retrieved for the link no longer include it.
\<close>

theorem delete_message_outcomes:
  assumes "k \<noteq> []"
  shows "(find_message d mid = None \<longrightarrow>
            delete_message d mid (Some k) = (d, error_response 404 ''Message not found'')) \<and>
         (find_message d mid = Some m \<and> find_link d (msg_linkId m) = None \<longrightarrow>
            delete_message d mid (Some k) =
              (d, error_response 404 ''Associated link not found'')) \<and>
         (find_message d mid = Some m \<and> find_link d (msg_linkId m) = Some l \<and>
          k \<noteq> userKey l \<longrightarrow>
            delete_message d mid (Some k) = (d, error_response 401 ''Invalid key'')) \<and>
         (find_message d mid = Some m \<and> find_link d (msg_linkId m) = Some l \<and>
          k = userKey l \<longrightarrow>
            snd (delete_message d mid (Some k)) =
              json_response 200
                [(''success'', JBool True),
                 (''message'', JStr (js ''Message deleted successfully''))] \<and>
            links (fst (delete_message d mid (Some k))) = links d \<and>
            messages (fst (delete_message d mid (Some k))) = remove1 m (messages d) \<and>
            (wf_db d \<longrightarrow>
               m \<notin> set (messages (fst (delete_message d mid (Some k)))) \<and>
               find_message (fst (delete_message d mid (Some k))) mid = None \<and>
               m \<notin> set (messages_of (fst (delete_message d mid (Some k))) (linkId l))))"
proof -
  have k: "\<not> falsy (Some k)" using assms by (simp add: falsy_def)
  have gone: "x \<in> set (messages (delete_message_by_id d mid)) \<Longrightarrow> messageId x \<noteq> mid"
    if "wf_db d" for x
    using that delete_first_gone [of messageId "messages d" x mid]
    by (simp add: wf_db_def delete_message_by_id_def)
  have none: "find_message (delete_message_by_id d mid) mid = None" if "wf_db d"
    using gone [OF that] by (auto simp: find_message_def find_None_iff)
  have notin: "m \<notin> set (messages (delete_message_by_id d mid))"
    if "wf_db d" "find_message d mid = Some m"
    using gone [OF that(1), of m] find_message_Some [OF that(2)] by auto
  have notin_of: "m \<notin> set (messages_of (delete_message_by_id d mid) lid)"
    if "wf_db d" "find_message d mid = Some m" for lid
    using notin [OF that] by (auto simp: messages_of_def)
  have rem: "messages (delete_message_by_id d mid) = remove1 m (messages d)"
    if "find_message d mid = Some m"
    using that delete_first_remove1 [of "\<lambda>x. messageId x = mid" "messages d" m]
    by (simp add: find_message_def delete_message_by_id_def)
  show ?thesis
    using k none notin notin_of rem
    by (auto simp: delete_message_def validateKey_def delete_message_by_id_def)
qed

theorem delete_message_outcomes_witness:
  "js ''secret123'' \<noteq> [] \<and> js ''guess'' \<noteq> [] \<and>
   find_message demo_db (js ''m-9'') = None \<and>
   delete_message demo_db (js ''m-9'') (Some (js ''secret123'')) =
     (demo_db, error_response 404 ''Message not found'') \<and>
   find_message (demo_db\<lparr>links := []\<rparr>) (js ''m-1'') = Some demo_old \<and>
   find_link (demo_db\<lparr>links := []\<rparr>) (msg_linkId demo_old) = None \<and>
   delete_message (demo_db\<lparr>links := []\<rparr>) (js ''m-1'') (Some (js ''secret123'')) =
     (demo_db\<lparr>links := []\<rparr>, error_response 404 ''Associated link not found'') \<and>
   find_message demo_db (js ''m-1'') = Some demo_old \<and>
   find_link demo_db (msg_linkId demo_old) = Some demo_link \<and>
   js ''guess'' \<noteq> userKey demo_link \<and>
   delete_message demo_db (js ''m-1'') (Some (js ''guess'')) =
     (demo_db, error_response 401 ''Invalid key'') \<and>
   js ''secret123'' = userKey demo_link \<and> wf_db demo_db \<and>
   messages (fst (delete_message demo_db (js ''m-1'') (Some (js ''secret123'')))) = [demo_new] \<and>
   find_message (fst (delete_message demo_db (js ''m-1'') (Some (js ''secret123''))))
     (js ''m-1'') = None \<and>
   demo_old \<notin> set (messages_of
     (fst (delete_message demo_db (js ''m-1'') (Some (js ''secret123'')))) (linkId demo_link))"
proof -
  let ?orphans = "demo_db\<lparr>links := []\<rparr>"
  have k: "js ''secret123'' \<noteq> []" and g: "js ''guess'' \<noteq> []" by (simp_all add: js_def)
  have missing: "find_message demo_db (js ''m-9'') = None"
    by (simp add: find_message_def demo_db_def demo_old_def demo_new_def js_def)
  have found: "find_message demo_db (js ''m-1'') = Some demo_old"
    and found': "find_message ?orphans (js ''m-1'') = Some demo_old"
    by (simp_all add: find_message_def demo_db_def demo_old_def)
  have owner: "find_link demo_db (msg_linkId demo_old) = Some demo_link"
    and orphan: "find_link ?orphans (msg_linkId demo_old) = None"
    by (simp_all add: find_link_def demo_db_def demo_old_def demo_link_def)
  have wrong: "js ''guess'' \<noteq> userKey demo_link"
    and right: "js ''secret123'' = userKey demo_link"
    by (simp_all add: demo_link_def js_def)
  have rest: "remove1 demo_old (messages demo_db) = [demo_new]"
    by (simp add: demo_db_def)
  have r1: "delete_message demo_db (js ''m-9'') (Some (js ''secret123'')) =
      (demo_db, error_response 404 ''Message not found'')"
    using delete_message_outcomes [OF k, where d = demo_db and mid = "js ''m-9''"] missing
    by blast
  have r2: "delete_message ?orphans (js ''m-1'') (Some (js ''secret123'')) =
      (?orphans, error_response 404 ''Associated link not found'')"
    using delete_message_outcomes [OF k, where d = ?orphans and mid = "js ''m-1''"
        and m = demo_old] found' orphan
    by blast
  have r3: "delete_message demo_db (js ''m-1'') (Some (js ''guess'')) =
      (demo_db, error_response 401 ''Invalid key'')"
    using delete_message_outcomes [OF g, where d = demo_db and mid = "js ''m-1''"
        and m = demo_old and l = demo_link] found owner wrong
    by blast
  have r4: "messages (fst (delete_message demo_db (js ''m-1'') (Some (js ''secret123''))))
        = remove1 demo_old (messages demo_db) \<and>
      find_message (fst (delete_message demo_db (js ''m-1'') (Some (js ''secret123''))))
        (js ''m-1'') = None \<and>
      demo_old \<notin> set (messages_of
        (fst (delete_message demo_db (js ''m-1'') (Some (js ''secret123'')))) (linkId demo_link))"
    using delete_message_outcomes [OF k, where d = demo_db and mid = "js ''m-1''"
        and m = demo_old and l = demo_link] found owner right wf_demo_db
    by blast
  from k g missing found found' owner orphan wrong right wf_demo_db r1 r2 r3 r4 [unfolded rest]
  show ?thesis by blast
qed

text \<open>
  C6 as stated covers every deletion request. Without a key the handler answers 401
  before it looks for the message, so a missing message is not reported as not found.
\<close>

theorem delete_message_without_key:
  "find_message demo_db (js ''m-9'') = None \<and>
   delete_message demo_db (js ''m-9'') None = (demo_db, error_response 401 ''Key is required'') \<and>
   status (snd (delete_message demo_db (js ''m-9'') None)) \<noteq> 404"
  by (simp add: delete_message_def falsy_def find_message_def demo_db_def demo_old_def
      demo_new_def js_def error_response_def json_response_def)

section \<open>Link creation (C7)\<close>

text \<open>
  C7, as the code has it. A request without a key, or with a key shorter than 6
  characters, gets the 400 response that names the key-length rule, and the store is
  unchanged. With a key of at least 6 characters, a new link with \<open>isActive = true\<close> is
  appended to the store when the generated identifier (the first 8 characters of the
  UUID) is not yet the identifier of a stored link; when it is (or would be empty), the
  store refuses the document, the response is the 500 response, and the store is
  unchanged.
\<close>

theorem create_link_key_length:
  "create_link e d None ttl descr =
     (d, error_response 400 ''Key is required and must be at least 6 characters long'') \<and>
   (length k < 6 \<longrightarrow> create_link e d (Some k) ttl descr =
     (d, error_response 400 ''Key is required and must be at least 6 characters long'')) \<and>
   (6 \<le> length k \<and> uuidv4 e \<noteq> [] \<and> take 8 (uuidv4 e) \<notin> set (map linkId (links d)) \<longrightarrow>
      fst (create_link e d (Some k) ttl descr) =
        d\<lparr>links := links d @
          [\<lparr>linkId = take 8 (uuidv4 e), userKey = k,
            title = or_default ttl (js ''Anonymous Messages''),
            description = or_default descr (js ''Send me anonymous messages''),
            isActive = True, createdAt = date_now e\<rparr>]\<rparr> \<and>
      status (snd (create_link e d (Some k) ttl descr)) = 201) \<and>
   (6 \<le> length k \<and>
    (uuidv4 e = [] \<or> take 8 (uuidv4 e) \<in> set (map linkId (links d))) \<longrightarrow>
      create_link e d (Some k) ttl descr = (d, internal_error))"
  by (auto simp: create_link_def falsy_def save_new_link_def link_valid_def Let_def json_response_def)

theorem create_link_key_length_witness:
  "length (js ''abc'') < 6 \<and>
   create_link demo_env demo_db (Some (js ''abc'')) None None =
     (demo_db, error_response 400 ''Key is required and must be at least 6 characters long'') \<and>
   6 \<le> length (js ''secret123'') \<and>
   uuidv4 (demo_env\<lparr>uuidv4 := js ''0f0f0f0f-1111''\<rparr>) \<noteq> [] \<and>
   take 8 (uuidv4 (demo_env\<lparr>uuidv4 := js ''0f0f0f0f-1111''\<rparr>))
     \<notin> set (map linkId (links demo_db)) \<and>
   fst (create_link (demo_env\<lparr>uuidv4 := js ''0f0f0f0f-1111''\<rparr>) demo_db
          (Some (js ''secret123'')) None None) =
     demo_db\<lparr>links := [demo_link,
       \<lparr>linkId = js ''0f0f0f0f'', userKey = js ''secret123'',
        title = js ''Anonymous Messages'', description = js ''Send me anonymous messages'',
        isActive = True, createdAt = 5000\<rparr>]\<rparr> \<and>
   take 8 (uuidv4 demo_env) \<in> set (map linkId (links demo_db)) \<and>
   create_link demo_env demo_db (Some (js ''secret123'')) None None = (demo_db, internal_error)"
proof -
  let ?e = "demo_env\<lparr>uuidv4 := js ''0f0f0f0f-1111''\<rparr>"
  have short: "length (js ''abc'') < 6" and long: "6 \<le> length (js ''secret123'')"
    by (simp_all add: js_def)
  have fresh: "uuidv4 ?e \<noteq> []" "take 8 (uuidv4 ?e) \<notin> set (map linkId (links demo_db))"
    by (simp_all add: js_def demo_db_def demo_link_def)
  have taken: "take 8 (uuidv4 demo_env) \<in> set (map linkId (links demo_db))"
    by (simp add: js_def demo_env_def demo_db_def demo_link_def)
  have new: "take 8 (uuidv4 ?e) = js ''0f0f0f0f''" "date_now ?e = 5000"
    "or_default None (js ''Anonymous Messages'') = js ''Anonymous Messages''"
    "or_default None (js ''Send me anonymous messages'') = js ''Send me anonymous messages''"
    by (simp_all add: js_def demo_env_def or_default_def)
  show ?thesis
    using short long fresh taken
      create_link_key_length [of demo_env demo_db None None "js ''abc''"]
      create_link_key_length [of ?e demo_db None None "js ''secret123''"]
      create_link_key_length [of demo_env demo_db None None "js ''secret123''"]
    by (simp add: new) (simp add: demo_db_def js_def)
qed

text \<open>
  C7 as stated promises a new link for every key of at least 6 characters. The store
  below already holds a link whose identifier is the one generated next: the key is
  long enough, yet nothing is persisted and the response is the 500 response.
\<close>

theorem create_link_collision:
  "6 \<le> length (js ''secret123'') \<and>
   create_link demo_env demo_db (Some (js ''secret123'')) None None = (demo_db, internal_error) \<and>
   links (fst (create_link demo_env demo_db (Some (js ''secret123'')) None None)) = [demo_link] \<and>
   status (snd (create_link demo_env demo_db (Some (js ''secret123'')) None None)) = 500"
  by (simp add: create_link_def falsy_def save_new_link_def link_valid_def Let_def js_def
      demo_env_def demo_db_def demo_link_def internal_error_def error_response_def
      json_response_def)

section \<open>Link listing (C8)\<close>

text \<open>
  C8. With a key, listing answers 200 with the summaries of the links of \<open>links_of\<close>
  and their number. The links of \<open>links_of\<close> are exactly the stored links whose
  \<open>userKey\<close> is the presented key, ordered by creation date, newest first. A summary
  holds the link's identifier, title, description, active flag and creation date, the
  number of stored messages whose \<open>linkId\<close> is the link's identifier, and the share path
  \<open>/share/<linkId>\<close>; no field of the body is named \<open>userKey\<close>.
\<close>

theorem list_links_owner:
  assumes "k \<noteq> []"
  shows "list_links d (Some k) =
           json_response 200
             [(''success'', JBool True),
              (''links'', JArr (map (link_summary_json d) (links_of d k))),
              (''totalLinks'',
                 JNum (int (length (filter (\<lambda>l. userKey l = k) (links d)))))] \<and>
         mset (links_of d k) = filter_mset (\<lambda>l. userKey l = k) (mset (links d)) \<and>
         sorted_wrt (\<lambda>a b. createdAt b \<le> createdAt a) (links_of d k) \<and>
         link_summary_json d l = JObj
           [(''linkId'', JStr (linkId l)), (''title'', JStr (title l)),
            (''description'', JStr (description l)), (''isActive'', JBool (isActive l)),
            (''createdAt'', JDate (createdAt l)),
            (''messageCount'',
               JNum (int (length (filter (\<lambda>m. msg_linkId m = linkId l) (messages d))))),
            (''shareUrl'', JStr (js ''/share/'' @ linkId l))] \<and>
         ''userKey'' \<notin> set (body_keys (payload (list_links d (Some k))))"
proof -
  have "list_links d (Some k) =
      json_response 200
        [(''success'', JBool True),
         (''links'', JArr (map (link_summary_json d) (links_of d k))),
         (''totalLinks'', JNum (int (length (links_of d k))))]"
    using assms by (simp add: list_links_def falsy_def Let_def)
  moreover have "length (links_of d k) = length (filter (\<lambda>l. userKey l = k) (links d))"
    by (simp add: links_of_def)
  ultimately show ?thesis
    using list_links_keys [of d "Some k"]
    by (simp add: mset_links_of sorted_links_of link_summary_json_def count_messages_def
        share_url_def)
qed

theorem list_links_owner_witness:
  "js ''secret123'' \<noteq> [] \<and>
   list_links (demo_db\<lparr>links := [demo_link,
       demo_link\<lparr>linkId := js ''ffff0000'', createdAt := 4000\<rparr>,
       demo_link\<lparr>linkId := js ''eeee0000'', userKey := js ''another1''\<rparr>]\<rparr>)
     (Some (js ''secret123'')) =
     json_response 200
       [(''success'', JBool True),
        (''links'', JArr
           [JObj [(''linkId'', JStr (js ''ffff0000'')), (''title'', JStr (js ''Anonymous Messages'')),
                  (''description'', JStr (js ''Send me anonymous messages'')),
                  (''isActive'', JBool True), (''createdAt'', JDate 4000),
                  (''messageCount'', JNum 0), (''shareUrl'', JStr (js ''/share/ffff0000''))],
            JObj [(''linkId'', JStr (js ''a1b2c3d4'')), (''title'', JStr (js ''Anonymous Messages'')),
                  (''description'', JStr (js ''Send me anonymous messages'')),
                  (''isActive'', JBool True), (''createdAt'', JDate 1000),
                  (''messageCount'', JNum 2), (''shareUrl'', JStr (js ''/share/a1b2c3d4''))]]),
        (''totalLinks'', JNum 2)]"
proof -
  let ?d = "demo_db\<lparr>links := [demo_link,
       demo_link\<lparr>linkId := js ''ffff0000'', createdAt := 4000\<rparr>,
       demo_link\<lparr>linkId := js ''eeee0000'', userKey := js ''another1''\<rparr>]\<rparr>"
  have k: "js ''secret123'' \<noteq> []" by (simp add: js_def)
  show ?thesis
    using k conjunct1 [OF list_links_owner [OF k, of ?d demo_link]]
    by (simp add: links_of_def link_summary_json_def count_messages_def share_url_def
        demo_db_def demo_link_def demo_old_def demo_new_def js_def)
qed

section \<open>The anonymous sender name (C9)\<close>

text \<open>
  C9. Whatever three doubles in \<open>[0, 1)\<close> the random source returns, the generated
  name is an adjective of the list, followed by an animal of the list, followed by the
  decimal text of an integer between 1 and 999.
\<close>

theorem generateAnonymousSenderId_pattern:
  assumes "is_unit_double r1" and "is_unit_double r2" and "is_unit_double r3"
  shows "\<exists>a\<in>set adjectives. \<exists>b\<in>set animals. \<exists>n\<in>{1..999}.
           generateAnonymousSenderId r1 r2 r3 = js a @ js b @ js (show_nat n)"
proof -
  have "floor_random_times r1 999 < 999"
    using assms(1) by (rule floor_random_times_less) simp
  then have n: "floor_random_times r1 999 + 1 \<in> {1..999}" by simp
  have "floor_random_times r2 (length adjectives) < length adjectives"
    using assms(2) by (rule floor_random_times_less) (simp add: adjectives_def)
  then have a: "element_text adjectives (floor_random_times r2 (length adjectives)) \<in> set adjectives"
    by (rule element_text_in_set)
  have "floor_random_times r3 (length animals) < length animals"
    using assms(3) by (rule floor_random_times_less) (simp add: animals_def)
  then have b: "element_text animals (floor_random_times r3 (length animals)) \<in> set animals"
    by (rule element_text_in_set)
  have "generateAnonymousSenderId r1 r2 r3 =
      js (element_text adjectives (floor_random_times r2 (length adjectives))) @
      js (element_text animals (floor_random_times r3 (length animals))) @
      js (show_nat (floor_random_times r1 999 + 1))"
    by (simp add: generateAnonymousSenderId_def Let_def js_append)
  with a b n show ?thesis by blast
qed

theorem generateAnonymousSenderId_pattern_witness:
  "is_unit_double half \<and>
   (\<exists>a\<in>set adjectives. \<exists>b\<in>set animals. \<exists>n\<in>{1..999}.
      generateAnonymousSenderId half half half = js a @ js b @ js (show_nat n))"
  using half_is_unit_double
    generateAnonymousSenderId_pattern [OF half_is_unit_double half_is_unit_double
      half_is_unit_double]
  by simp

section \<open>Requests without a key (C10)\<close>

text \<open>
  C10. When the key is absent, message retrieval, message deletion and the visibility
  toggle answer 401 "Key is required" whatever the store holds, so also when the link
  or message does not exist, and deletion and toggle return the store unchanged.
\<close>

theorem owner_routes_require_key_first:
  "get_messages d lid None = error_response 401 ''Key is required'' \<and>
   delete_message d mid None = (d, error_response 401 ''Key is required'') \<and>
   toggle_visibility d lid None = (d, error_response 401 ''Key is required'')"
  by (simp add: get_messages_def delete_message_def toggle_visibility_def falsy_def)

end
